theory Spec2Isabelle
  imports Main "HOL-Library.AList" "HOL-Library.Sublist" "HOL-Library.Char_ord" "HOL-Library.List_Lexorder"
begin

section \<open>Common model: bytes, text, the filesystem, exceptions\<close>

text \<open>
  A Python \<open>bytes\<close> value is a list of 8-bit characters, and so is a \<open>str\<close> (the model does
  not go beyond 8-bit code points). Files live in a flat namespace: a filesystem maps a path
  to the contents of the regular file stored there. Directories are not stored in this map
  and there are no permissions: a directory can be created unless a regular file stands in
  its way.
\<close>

type_synonym bytes = "char list"

type_synonym fs = "string \<rightharpoonup> bytes"

datatype py_exn = OSError | StructError | ExternalError

text \<open>
  How a script ends: \<open>sys.exit(n)\<close> was called (\<open>argparse\<close> calls it with 2 on a usage
  error), an exception escaped \<open>main\<close>, or \<open>main\<close> returned. The interpreter turns an
  exception that escapes into the exit status 1 and a return into the exit status 0.
\<close>

datatype 'a ended = Sys_exit nat | Uncaught py_exn | Returns 'a


text \<open>
  The path itself and its ancestors: the non-empty prefixes of a path that end where a
  component ends. \<open>path_prefixes_from acc rest\<close> walks along \<open>rest\<close> with the characters passed
  so far in \<open>acc\<close>.
\<close>

fun path_prefixes_from :: "string \<Rightarrow> string \<Rightarrow> string list" where
  "path_prefixes_from acc [] = (if acc = [] then [] else [acc])"
| "path_prefixes_from acc (c # cs) =
     (if c = CHR ''/'' \<and> acc \<noteq> [] then acc # path_prefixes_from (acc @ [c]) cs
      else path_prefixes_from (acc @ [c]) cs)"

definition path_prefixes :: "string \<Rightarrow> string list" where
  "path_prefixes p = path_prefixes_from [] p"

text \<open>
  \<open>os.makedirs(p, exist_ok=True)\<close>: it raises \<open>FileNotFoundError\<close> on the empty path, and
  \<open>FileExistsError\<close> or \<open>NotADirectoryError\<close> (all of them \<open>OSError\<close>) when \<open>p\<close> or one of its
  ancestors is a regular file; otherwise it returns. The directories it creates are not
  stored in the filesystem of the model.
\<close>

definition os_makedirs :: "fs \<Rightarrow> string \<Rightarrow> py_exn + unit" where
  "os_makedirs files p =
     (if p = [] \<or> list_ex (\<lambda>q. files q \<noteq> None) (path_prefixes p) then Inl OSError else Inr ())"

text \<open>\<open>f.read(n)\<close> on a stream: the bytes read (fewer than \<open>n\<close> at the end of the file)
  and the rest of the stream.\<close>

definition f_read :: "nat \<Rightarrow> bytes \<Rightarrow> bytes \<times> bytes" where
  "f_read n s = (take n s, drop n s)"

text \<open>\<open>struct.unpack("<I", b)[0]\<close>: a little-endian unsigned 32-bit integer; raises
  \<open>struct.error\<close> unless \<open>b\<close> has exactly four bytes.\<close>

fun struct_unpack_I :: "bytes \<Rightarrow> py_exn + nat" where
  "struct_unpack_I [a, b, c, d] =
     Inr (of_char a + 256 * of_char b + 65536 * of_char c + 16777216 * of_char d)"
| "struct_unpack_I _ = Inl StructError"

section \<open>strip\_cfs.py: the header normalizer\<close>

definition CFS_MAGIC :: bytes where
  "CFS_MAGIC = ''UnityCFS''"

definition CFS_HEADER_SIZE :: nat where
  "CFS_HEADER_SIZE = 32"

definition UNITYFS_MAGIC :: bytes where
  "UNITYFS_MAGIC = ''UnityFS''"

text \<open>The two warnings \<open>strip_cfs_header\<close> prints, each with the input path.\<close>

datatype message = Warn_not_unityfs string | Warn_sha1_mismatch string

text \<open>
  \<open>strip_cfs_header(input_path, output_path)\<close>. The digest function of \<open>hashlib\<close> is a
  parameter. The result is the exception that escapes, or the returned flag with the
  filesystem after the call and the lines printed. The exceptions are those of the input
  side (the input cannot be opened, the header is cut short); the output path is taken to be
  one that can be written.
\<close>

definition strip_cfs_header ::
  "(bytes \<Rightarrow> bytes) \<Rightarrow> fs \<Rightarrow> string \<Rightarrow> string \<Rightarrow> py_exn + (bool \<times> fs \<times> message list)" where
  "strip_cfs_header sha1 files input_path output_path =
     (case files input_path of
        None \<Rightarrow> Inl OSError
      | Some contents \<Rightarrow>
          let (magic, r1) = f_read 8 contents in
          if magic = CFS_MAGIC then
            let (vb, r2) = f_read 4 r1 in
            (case struct_unpack_I vb of
               Inl e \<Rightarrow> Inl e
             | Inr version \<Rightarrow>
                 let (sha1_hash, r3) = f_read 20 r2;
                     data = r3;
                     w1 = (if \<not> prefix UNITYFS_MAGIC data
                           then [Warn_not_unityfs input_path] else []);
                     actual_hash = sha1 data;
                     w2 = (if actual_hash \<noteq> sha1_hash
                           then [Warn_sha1_mismatch input_path] else [])
                 in Inr (True, files(output_path \<mapsto> data), w1 @ w2))
          else
            let data = contents
            in Inr (False, files(output_path \<mapsto> data), []))"

section \<open>Text helpers of the extraction scripts\<close>

text \<open>\<open>str.isalnum\<close> on one character, for the code points below 256.\<close>

definition isalnum :: "char \<Rightarrow> bool" where
  "isalnum c =
     (let n = (of_char c :: nat) in
      (48 \<le> n \<and> n \<le> 57) \<or> (65 \<le> n \<and> n \<le> 90) \<or> (97 \<le> n \<and> n \<le> 122) \<or>
      n \<in> {170, 178, 179, 181, 185, 186, 188, 189, 190} \<or>
      (192 \<le> n \<and> n \<noteq> 215 \<and> n \<noteq> 247))"

definition safe_filename :: "string \<Rightarrow> string" where
  "safe_filename name =
     map (\<lambda>c. if isalnum c \<or> c \<in> set ''._-'' then c else CHR ''_'') name"

text \<open>\<open>str(n)\<close> for an integer, as an f-string formats \<open>path_id\<close>, the width and the
  height: decimal digits, with a minus sign for a negative number.\<close>

definition digit_char :: "nat \<Rightarrow> char" where
  "digit_char d = char_of (48 + d)"

fun str_nat :: "nat \<Rightarrow> string" where
  "str_nat n = (if n < 10 then [digit_char n] else str_nat (n div 10) @ [digit_char (n mod 10)])"

declare str_nat.simps [simp del]

definition str_int :: "int \<Rightarrow> string" where
  "str_int i = (if i < 0 then CHR ''-'' # str_nat (nat (- i)) else str_nat (nat i))"

text \<open>\<open>os.path.join(a, b)\<close> of \<open>posixpath\<close>.\<close>

definition os_path_join :: "string \<Rightarrow> string \<Rightarrow> string" where
  "os_path_join a b =
     (if b \<noteq> [] \<and> hd b = CHR ''/'' then b
      else if a = [] \<or> last a = CHR ''/'' then a @ b
      else a @ ''/'' @ b)"

text \<open>\<open>os.path.exists\<close>: in the flat namespace, a path exists when a file is stored there.\<close>

definition os_path_exists :: "fs \<Rightarrow> string \<Rightarrow> bool" where
  "os_path_exists files p = (files p \<noteq> None)"

text \<open>
  Encoding a text to UTF-8, as a file opened with \<open>encoding="utf-8"\<close> does on \<open>write\<close>. The
  text is a list of code points; a surrogate (\<open>0xD800\<close> to \<open>0xDFFF\<close>) cannot be encoded and
  raises \<open>UnicodeEncodeError\<close>, which is \<open>None\<close> here.
\<close>

definition utf8_char :: "nat \<Rightarrow> bytes option" where
  "utf8_char n =
     (if n < 128 then Some [char_of n]
      else if n < 2048 then Some [char_of (192 + n div 64), char_of (128 + n mod 64)]
      else if 55296 \<le> n \<and> n \<le> 57343 then None
      else if n < 65536 then
        Some [char_of (224 + n div 4096), char_of (128 + (n div 64) mod 64), char_of (128 + n mod 64)]
      else if n < 1114112 then
        Some [char_of (240 + n div 262144), char_of (128 + (n div 4096) mod 64),
              char_of (128 + (n div 64) mod 64), char_of (128 + n mod 64)]
      else None)"

fun utf8_encode :: "nat list \<Rightarrow> bytes option" where
  "utf8_encode [] = Some []"
| "utf8_encode (n # ns) =
     (case utf8_char n of
        None \<Rightarrow> None
      | Some b \<Rightarrow> (case utf8_encode ns of None \<Rightarrow> None | Some bs \<Rightarrow> Some (b @ bs)))"

text \<open>
  A file opened in text mode without \<open>encoding\<close> encodes with the encoding of the locale,
  which is UTF-8 here. \<open>None\<close> is again \<open>UnicodeEncodeError\<close>.
\<close>

definition locale_encode :: "nat list \<Rightarrow> bytes option" where
  "locale_encode code_points = utf8_encode code_points"

text \<open>
  \<open>bytes(xs)\<close> on a list of integers: \<open>ValueError\<close> (\<open>None\<close>) unless every item is in
  \<open>range(256)\<close>.
\<close>

definition bytes_of_ints :: "int list \<Rightarrow> bytes option" where
  "bytes_of_ints xs =
     (if list_all (\<lambda>x. 0 \<le> x \<and> x < 256) xs then Some (map (\<lambda>x. char_of (nat x)) xs) else None)"

section \<open>The external parser and codec, as the scripts see them\<close>

text \<open>
  The scripts reach the container parser and the image codec through attribute accesses
  and calls that may raise. \<open>Raises\<close> is an access or call that raises an exception,
  \<open>Got v\<close> one that yields \<open>v\<close>.
\<close>

datatype 'a access = Raises | Got 'a

text \<open>
  What \<open>img.save(outpath)\<close> does is the codec's business: it writes the encoded image, or
  raises, and then leaves the path as it was (\<open>None\<close>) or with some bytes in it.
\<close>

datatype save_outcome = Saved bytes | Save_failed "bytes option"

record image =
  img_size :: "int \<times> int"
  save :: save_outcome

text \<open>The payload \<open>m_Script\<close> of a text asset: a \<open>str\<close> (code points), a \<open>bytes\<close> value, or
  another value, given by what \<open>bytes(script)\<close> does on it.\<close>

datatype script = Script_str "nat list" | Script_bytes bytes | Script_other "bytes access"

text \<open>
  The payload \<open>m_FontData\<close> of a font: a \<open>bytes\<close> value or a list of integers.
  Both are false when empty. A slice of a list is a
  list and never equal to \<open>b"OTTO"\<close>; \<open>bytes(font_data)\<close> is the value itself for \<open>bytes\<close>
  and may raise for a list.
\<close>

datatype font_payload = Font_bytes bytes | Font_ints "int list"

definition font_nonempty :: "font_payload \<Rightarrow> bool" where
  "font_nonempty font_data = (case font_data of Font_bytes b \<Rightarrow> b \<noteq> [] | Font_ints xs \<Rightarrow> xs \<noteq> [])"

definition font_ext :: "font_payload \<Rightarrow> string" where
  "font_ext font_data =
     (case font_data of
        Font_bytes b \<Rightarrow> if take 4 b = ''OTTO'' then ''.otf'' else ''.ttf''
      | Font_ints xs \<Rightarrow> ''.ttf'')"

definition font_to_bytes :: "font_payload \<Rightarrow> bytes option" where
  "font_to_bytes font_data =
     (case font_data of Font_bytes b \<Rightarrow> Some b | Font_ints xs \<Rightarrow> bytes_of_ints xs)"

text \<open>The fields of a parsed object that the exporters read. \<open>image\<close> may be Python's
  \<open>None\<close>; \<open>export\<close> is the call \<open>data.export()\<close> of a mesh, which gives a text (a list of
  code points); \<open>samples\<close> lists the items of the dictionary of an audio clip in its
  order.\<close>

record asset_data =
  m_Name :: string
  m_Width :: int
  m_Height :: int
  image :: "image option access"
  export :: "nat list access"
  samples :: "(string \<times> bytes) list access"
  m_Script :: "script access"
  m_FontData :: "font_payload access"

text \<open>An object handle: \<open>obj.type.name\<close>, \<open>obj.path_id\<close>, and \<open>obj.read()\<close>, which raises
  (\<open>None\<close>) or yields the parsed fields.\<close>

record asset_object =
  type_name :: string
  path_id :: int
  read_result :: "asset_data option"

text \<open>How a call of an exporter ends: an exception escapes, or it returns a flag.\<close>

datatype outcome = Raised | Returned bool

text \<open>\<open>img.save(outpath)\<close>: whether it returned, and the filesystem after it.\<close>

definition img_save :: "image \<Rightarrow> fs \<Rightarrow> string \<Rightarrow> bool \<times> fs" where
  "img_save img files outpath =
     (case save img of
        Saved b \<Rightarrow> (True, files(outpath \<mapsto> b))
      | Save_failed None \<Rightarrow> (False, files)
      | Save_failed (Some b) \<Rightarrow> (False, files(outpath \<mapsto> b)))"

section \<open>extract\_assets.py: the exporters\<close>

definition SUPPORTED_TYPES :: "string set" where
  "SUPPORTED_TYPES = {''Texture2D'', ''Mesh'', ''AudioClip'', ''TextAsset'',
     ''Font'', ''Sprite'', ''AnimationClip'', ''MonoBehaviour''}"

text \<open>
  Every exporter takes the object, the output directory and the filesystem, and gives how
  the call ended with the filesystem after it. \<open>obj.read()\<close> stands before the \<open>try\<close>, so
  an exception of it escapes; every exception inside the \<open>try\<close> ends in \<open>return False\<close>.
\<close>

definition extract_texture2d :: "asset_object \<Rightarrow> string \<Rightarrow> fs \<Rightarrow> outcome \<times> fs" where
  "extract_texture2d obj output_dir files =
     (case read_result obj of
        None \<Rightarrow> (Raised, files)
      | Some data \<Rightarrow>
          (case image data of
             Raises \<Rightarrow> (Returned False, files)
           | Got None \<Rightarrow> (Returned False, files)
           | Got (Some img) \<Rightarrow>
               if fst (img_size img) > 0 \<and> snd (img_size img) > 0 then
                 let name = safe_filename
                       (if m_Name data \<noteq> [] then m_Name data
                        else ''texture_'' @ str_int (path_id obj));
                     outpath = os_path_join output_dir
                       (name @ ''_'' @ str_int (m_Width data) @ ''x'' @ str_int (m_Height data) @ ''.png'');
                     outpath = (if os_path_exists files outpath
                       then os_path_join output_dir
                         (name @ ''_'' @ str_int (m_Width data) @ ''x'' @ str_int (m_Height data) @
                          ''_'' @ str_int (path_id obj) @ ''.png'')
                       else outpath)
                 in (case img_save img files outpath of
                       (True, files') \<Rightarrow> (Returned True, files')
                     | (False, files') \<Rightarrow> (Returned False, files'))
               else (Returned False, files)))"

text \<open>
  \<open>open(outpath, "w")\<close> creates the file, or empties it, before anything is written. The
  mesh text is then encoded by \<open>f.write\<close>: when that raises, the exporter returns false and
  the empty file stays.
\<close>

definition extract_mesh :: "asset_object \<Rightarrow> string \<Rightarrow> fs \<Rightarrow> outcome \<times> fs" where
  "extract_mesh obj output_dir files =
     (case read_result obj of
        None \<Rightarrow> (Raised, files)
      | Some data \<Rightarrow>
          let name = safe_filename
                (if m_Name data \<noteq> [] then m_Name data else ''mesh_'' @ str_int (path_id obj));
              outpath = os_path_join output_dir (name @ ''.obj'');
              outpath = (if os_path_exists files outpath
                then os_path_join output_dir (name @ ''_'' @ str_int (path_id obj) @ ''.obj'')
                else outpath)
          in (case export data of
                Raises \<Rightarrow> (Returned False, files)
              | Got mesh_data \<Rightarrow>
                  if mesh_data \<noteq> [] then
                    let files1 = files(outpath \<mapsto> [])
                    in (case locale_encode mesh_data of
                          None \<Rightarrow> (Returned False, files1)
                        | Some b \<Rightarrow> (Returned True, files1(outpath \<mapsto> b)))
                  else (Returned False, files)))"

text \<open>The loop of \<open>extract_audioclip\<close> over the samples: each sample is written in turn.\<close>

fun write_samples :: "int \<Rightarrow> string \<Rightarrow> (string \<times> bytes) list \<Rightarrow> fs \<Rightarrow> fs" where
  "write_samples pid output_dir [] files = files"
| "write_samples pid output_dir ((name_str, audio_data) # rest) files =
     (let name = safe_filename
            (if name_str \<noteq> [] then name_str else ''audio_'' @ str_int pid);
          ext = (if take 4 audio_data = ''OggS'' then ''.ogg''
                 else if take 4 audio_data = ''RIFF'' then ''.wav''
                 else if take 2 audio_data = [CHR 0xFF, CHR 0xFB] \<or> take 3 audio_data = ''ID3''
                 then ''.mp3''
                 else ''.wav'');
          outpath = os_path_join output_dir (name @ ext);
          outpath = (if os_path_exists files outpath
            then os_path_join output_dir (name @ ''_'' @ str_int pid @ ext)
            else outpath)
      in write_samples pid output_dir rest (files(outpath \<mapsto> audio_data)))"

definition extract_audioclip :: "asset_object \<Rightarrow> string \<Rightarrow> fs \<Rightarrow> outcome \<times> fs" where
  "extract_audioclip obj output_dir files =
     (case read_result obj of
        None \<Rightarrow> (Raised, files)
      | Some data \<Rightarrow>
          (case samples data of
             Raises \<Rightarrow> (Returned False, files)
           | Got smp \<Rightarrow>
               if smp \<noteq> [] then (Returned True, write_samples (path_id obj) output_dir smp files)
               else (Returned False, files)))"

text \<open>
  In \<open>extract_textasset\<close> too the encoding of a text, and \<open>bytes(script)\<close> for a payload that
  is neither \<open>str\<close> nor \<open>bytes\<close>, come after \<open>open\<close> and may raise: the empty file then stays.
  \<open>script_to_bytes\<close> is the argument of \<open>f.write\<close> in the binary branch, the payload itself
  when it is \<open>bytes\<close> and \<open>bytes(script)\<close> otherwise.
\<close>

definition script_to_bytes :: "script \<Rightarrow> bytes access" where
  "script_to_bytes s =
     (case s of
        Script_bytes b \<Rightarrow> Got b
      | Script_other conv \<Rightarrow> conv
      | Script_str text \<Rightarrow> Raises)"

definition extract_textasset :: "asset_object \<Rightarrow> string \<Rightarrow> fs \<Rightarrow> outcome \<times> fs" where
  "extract_textasset obj output_dir files =
     (case read_result obj of
        None \<Rightarrow> (Raised, files)
      | Some data \<Rightarrow>
          let name = safe_filename
                (if m_Name data \<noteq> [] then m_Name data else ''text_'' @ str_int (path_id obj))
          in (case m_Script data of
                Raises \<Rightarrow> (Returned False, files)
              | Got (Script_str text) \<Rightarrow>
                  let outpath = os_path_join output_dir (name @ ''.txt'');
                      outpath = (if os_path_exists files outpath
                        then os_path_join output_dir (name @ ''_'' @ str_int (path_id obj) @ ''.txt'')
                        else outpath);
                      files1 = files(outpath \<mapsto> [])
                  in (case utf8_encode text of
                        None \<Rightarrow> (Returned False, files1)
                      | Some b \<Rightarrow> (Returned True, files1(outpath \<mapsto> b)))
              | Got binary \<Rightarrow>
                  let outpath = os_path_join output_dir (name @ ''.bytes'');
                      outpath = (if os_path_exists files outpath
                        then os_path_join output_dir (name @ ''_'' @ str_int (path_id obj) @ ''.bytes'')
                        else outpath);
                      files1 = files(outpath \<mapsto> [])
                  in (case script_to_bytes binary of
                        Raises \<Rightarrow> (Returned False, files1)
                      | Got b \<Rightarrow> (Returned True, files1(outpath \<mapsto> b)))))"

text \<open>In \<open>extract_font\<close> the argument \<open>bytes(font_data)\<close> of \<open>f.write\<close> is evaluated after
  \<open>open\<close>: when it raises, the empty file stays.\<close>

definition extract_font :: "asset_object \<Rightarrow> string \<Rightarrow> fs \<Rightarrow> outcome \<times> fs" where
  "extract_font obj output_dir files =
     (case read_result obj of
        None \<Rightarrow> (Raised, files)
      | Some data \<Rightarrow>
          (case m_FontData data of
             Raises \<Rightarrow> (Returned False, files)
           | Got font_data \<Rightarrow>
               if font_nonempty font_data then
                 let name = safe_filename
                       (if m_Name data \<noteq> [] then m_Name data
                        else ''font_'' @ str_int (path_id obj));
                     ext = font_ext font_data;
                     outpath = os_path_join output_dir (name @ ext);
                     outpath = (if os_path_exists files outpath
                       then os_path_join output_dir (name @ ''_'' @ str_int (path_id obj) @ ext)
                       else outpath);
                     files1 = files(outpath \<mapsto> [])
                 in (case font_to_bytes font_data of
                       None \<Rightarrow> (Returned False, files1)
                     | Some b \<Rightarrow> (Returned True, files1(outpath \<mapsto> b)))
               else (Returned False, files)))"

definition extract_sprite :: "asset_object \<Rightarrow> string \<Rightarrow> fs \<Rightarrow> outcome \<times> fs" where
  "extract_sprite obj output_dir files =
     (case read_result obj of
        None \<Rightarrow> (Raised, files)
      | Some data \<Rightarrow>
          (case image data of
             Raises \<Rightarrow> (Returned False, files)
           | Got None \<Rightarrow> (Returned False, files)
           | Got (Some img) \<Rightarrow>
               if fst (img_size img) > 0 \<and> snd (img_size img) > 0 then
                 let name = safe_filename
                       (if m_Name data \<noteq> [] then m_Name data
                        else ''sprite_'' @ str_int (path_id obj));
                     outpath = os_path_join output_dir (name @ ''.png'');
                     outpath = (if os_path_exists files outpath
                       then os_path_join output_dir (name @ ''_'' @ str_int (path_id obj) @ ''.png'')
                       else outpath)
                 in (case img_save img files outpath of
                       (True, files') \<Rightarrow> (Returned True, files')
                     | (False, files') \<Rightarrow> (Returned False, files'))
               else (Returned False, files)))"

definition EXTRACTORS :: "string \<rightharpoonup> (asset_object \<Rightarrow> string \<Rightarrow> fs \<Rightarrow> outcome \<times> fs)" where
  "EXTRACTORS = map_of [
     (''Texture2D'', extract_texture2d),
     (''Mesh'', extract_mesh),
     (''AudioClip'', extract_audioclip),
     (''TextAsset'', extract_textasset),
     (''Font'', extract_font),
     (''Sprite'', extract_sprite)]"

section \<open>Bundle discovery\<close>

text \<open>
  A path is the list of its parts, as \<open>pathlib\<close> compares paths. An entry is a path yielded
  by \<open>rglob("*")\<close>, with what \<open>is_file()\<close> and \<open>stat().st_size\<close> say of it. The listing of a
  directory is an input of the model.
\<close>

record entry =
  e_path :: "string list"
  is_file :: bool
  st_size :: nat

text \<open>\<open>Path.suffix\<close>: the part of the final component from its last dot on, when that dot
  is neither the first nor the last character; empty otherwise.\<close>

definition path_suffix :: "string list \<Rightarrow> string" where
  "path_suffix parts =
     (let name = (if parts = [] then [] else last parts) in
      if CHR ''.'' \<in> set name then
        let i = length name - Suc (length (takeWhile (\<lambda>c. c \<noteq> CHR ''.'') (rev name)))
        in if 0 < i \<and> i < length name - 1 then drop i name else []
      else [])"

text \<open>\<open>str.lower\<close>, for the code points below 256.\<close>

definition lower_char :: "char \<Rightarrow> char" where
  "lower_char c =
     (let n = (of_char c :: nat) in
      if (65 \<le> n \<and> n \<le> 90) \<or> (192 \<le> n \<and> n \<le> 222 \<and> n \<noteq> 215) then char_of (n + 32) else c)"

definition str_lower :: "string \<Rightarrow> string" where
  "str_lower s = map lower_char s"

definition extensions :: "string set" where
  "extensions = {''.bundle'', ''.unity3d'', ''.assets'', ''.resource''}"

text \<open>\<open>find_bundles\<close>, the same function in \<open>extract_assets.py\<close> and \<open>extract_textures.py\<close>,
  on the listing of \<open>bundle_dir\<close>.\<close>

definition find_bundles :: "entry list \<Rightarrow> string list list" where
  "find_bundles listing =
     (let bundles = map e_path (filter (\<lambda>f. is_file f \<and>
            (str_lower (path_suffix (e_path f)) \<in> extensions \<or>
             (path_suffix (e_path f) = [] \<and> st_size f > 100))) listing);
          bundles = (if bundles = []
            then map e_path (filter (\<lambda>f. is_file f \<and> st_size f > 100) listing)
            else bundles)
      in sort bundles)"

section \<open>extract\_assets.py: the engine\<close>

text \<open>
  The statistics \<open>defaultdict\<close>: an association list from a type name to its success and
  failure counts; a type name that is not a key counts as \<open>(0, 0)\<close>.
\<close>

type_synonym stats = "(string \<times> nat \<times> nat) list"

definition stats_get :: "stats \<Rightarrow> string \<Rightarrow> nat \<times> nat" where
  "stats_get st k = (case map_of st k of None \<Rightarrow> (0, 0) | Some v \<Rightarrow> v)"

definition incr_success :: "string \<Rightarrow> stats \<Rightarrow> stats" where
  "incr_success k st = AList.update k (Suc (fst (stats_get st k)), snd (stats_get st k)) st"

definition incr_failed :: "string \<Rightarrow> stats \<Rightarrow> stats" where
  "incr_failed k st = AList.update k (fst (stats_get st k), Suc (snd (stats_get st k))) st"

text \<open>The totals of the summary, summed over the sorted keys.\<close>

definition total_success :: "stats \<Rightarrow> nat" where
  "total_success st = sum_list (map (\<lambda>k. fst (stats_get st k)) (sort (map fst st)))"

definition total_failed :: "stats \<Rightarrow> nat" where
  "total_failed st = sum_list (map (\<lambda>k. snd (stats_get st k)) (sort (map fst st)))"

text \<open>The body of the loop over \<open>env.objects\<close>.\<close>

definition process_object ::
  "string set \<Rightarrow> string \<Rightarrow> asset_object \<Rightarrow> stats \<times> fs \<Rightarrow> stats \<times> fs" where
  "process_object extract_types output_dir obj s =
     (case s of (st, files) \<Rightarrow>
        if type_name obj \<in> extract_types \<and> type_name obj \<in> dom EXTRACTORS then
          (case EXTRACTORS (type_name obj) of
             None \<Rightarrow> (st, files)
           | Some extractor \<Rightarrow>
               let output_subdir = os_path_join output_dir (type_name obj) in
               (case extractor obj output_subdir files of
                  (Returned True, files') \<Rightarrow> (incr_success (type_name obj) st, files')
                | (Returned False, files') \<Rightarrow> (incr_failed (type_name obj) st, files')
                | (Raised, files') \<Rightarrow> (incr_failed (type_name obj) st, files')))
        else (st, files))"

text \<open>The body of the loop over the bundles. \<open>load\<close> is \<open>UnityPy.load\<close> followed by
  \<open>env.objects\<close>: it raises (\<open>None\<close>), and the bundle is skipped, or yields the objects.\<close>

definition process_bundle ::
  "string set \<Rightarrow> string \<Rightarrow> (string list \<Rightarrow> asset_object list option) \<Rightarrow>
   string list \<Rightarrow> stats \<times> fs \<Rightarrow> stats \<times> fs" where
  "process_bundle extract_types output_dir load bundle_file s =
     (case load bundle_file of
        None \<Rightarrow> s
      | Some objects \<Rightarrow> fold (process_object extract_types output_dir) objects s)"

text \<open>\<open>str.split(",")\<close>.\<close>

fun split_comma :: "string \<Rightarrow> string list" where
  "split_comma [] = [[]]"
| "split_comma (c # cs) =
     (if c = CHR '','' then [] # split_comma cs
      else (case split_comma cs of w # ws \<Rightarrow> (c # w) # ws | [] \<Rightarrow> [[c]]))"

text \<open>What \<open>argparse\<close> gives: a usage error (a required argument is missing), on which it
  calls \<open>sys.exit(2)\<close>, or the arguments.\<close>

datatype 'a parsed = Usage_error | Parsed 'a

record args =
  arg_bundle_dir :: string
  arg_output_dir :: string
  arg_unity_version :: string
  arg_types :: "string option"

definition extract_types_of :: "args \<Rightarrow> string set" where
  "extract_types_of a =
     (case arg_types a of
        Some t \<Rightarrow> if t \<noteq> [] then set (split_comma t) \<inter> SUPPORTED_TYPES else dom EXTRACTORS
      | None \<Rightarrow> dom EXTRACTORS)"

text \<open>
  \<open>main\<close> of \<open>extract_assets.py\<close>: how it ends, with the statistics and the filesystem when
  it returns. \<open>rglob\<close> gives the listing of a directory. The loop that creates one output
  directory for each type stands outside every \<open>try\<close>: the first \<open>os.makedirs\<close> that raises
  ends the run, whatever the order in which the set is walked. The printed lines are not
  part of the model.
\<close>

definition main_extract_assets ::
  "args parsed \<Rightarrow> (string \<Rightarrow> entry list) \<Rightarrow> (string list \<Rightarrow> asset_object list option) \<Rightarrow>
   fs \<Rightarrow> (stats \<times> fs) ended" where
  "main_extract_assets pa rglob load files =
     (case pa of
        Usage_error \<Rightarrow> Sys_exit 2
      | Parsed a \<Rightarrow>
          let extract_types = extract_types_of a in
          if \<exists>t \<in> extract_types. isl (os_makedirs files (os_path_join (arg_output_dir a) t))
          then Uncaught OSError
          else
            let bundles = find_bundles (rglob (arg_bundle_dir a));
                (st, files') = fold (process_bundle extract_types (arg_output_dir a) load) bundles ([], files)
            in Returns (st, files'))"


section \<open>extract\_textures.py: the texture-only tool\<close>

record texture_args =
  targ_bundle_dir :: string
  targ_output_dir :: string
  targ_unity_version :: string
  targ_min_size :: int

record counters =
  extracted :: nat
  failed :: nat
  skipped :: nat

text \<open>The body of the loop over \<open>env.objects\<close> in \<open>main\<close> of \<open>extract_textures.py\<close>. Here
  \<open>obj.read()\<close> stands inside the \<open>try\<close>: an exception of it counts as a failure.\<close>

definition texture_step ::
  "int \<Rightarrow> string \<Rightarrow> asset_object \<Rightarrow> counters \<times> fs \<Rightarrow> counters \<times> fs" where
  "texture_step min_size output_dir obj s =
     (case s of (c, files) \<Rightarrow>
        if type_name obj = ''Texture2D'' then
          (case read_result obj of
             None \<Rightarrow> (c\<lparr>failed := Suc (failed c)\<rparr>, files)
           | Some data \<Rightarrow>
               if min_size > 0 \<and> m_Width data < min_size \<and> m_Height data < min_size
               then (c\<lparr>skipped := Suc (skipped c)\<rparr>, files)
               else
                 (case image data of
                    Raises \<Rightarrow> (c\<lparr>failed := Suc (failed c)\<rparr>, files)
                  | Got None \<Rightarrow> (c\<lparr>failed := Suc (failed c)\<rparr>, files)
                  | Got (Some img) \<Rightarrow>
                      if fst (img_size img) > 0 \<and> snd (img_size img) > 0 then
                        let name = safe_filename
                              (if m_Name data \<noteq> [] then m_Name data
                               else ''texture_'' @ str_int (path_id obj));
                            outpath = os_path_join output_dir
                              (name @ ''_'' @ str_int (m_Width data) @ ''x'' @
                               str_int (m_Height data) @ ''.png'');
                            outpath = (if os_path_exists files outpath
                              then os_path_join output_dir
                                (name @ ''_'' @ str_int (m_Width data) @ ''x'' @
                                 str_int (m_Height data) @ ''_'' @ str_int (path_id obj) @ ''.png'')
                              else outpath)
                        in (case img_save img files outpath of
                              (True, files') \<Rightarrow> (c\<lparr>extracted := Suc (extracted c)\<rparr>, files')
                            | (False, files') \<Rightarrow> (c\<lparr>failed := Suc (failed c)\<rparr>, files'))
                      else (c\<lparr>failed := Suc (failed c)\<rparr>, files)))
        else (c, files))"




section \<open>strip\_cfs.py: batch mode and the command line\<close>

text \<open>The file selection of \<open>process_directory\<close>: its own extension set holds the empty
  extension, and it has no size threshold.\<close>

definition bundle_extensions :: "string set" where
  "bundle_extensions = {''.bundle'', ''.unity3d'', ''.assets'', ''.resource'', []}"

definition cfs_candidates :: "entry list \<Rightarrow> string list list" where
  "cfs_candidates listing =
     (let files = map e_path (filter (\<lambda>f. is_file f \<and>
            (str_lower (path_suffix (e_path f)) \<in> bundle_extensions \<or>
             path_suffix (e_path f) = [])) listing);
          files = (if files = [] then map e_path (filter is_file listing) else files)
      in sort files)"






section \<open>Reading a run of the engine\<close>

text \<open>An object reaches an exporter when its type is in the requested set and an exporter
  is registered for it.\<close>

definition eligible :: "string set \<Rightarrow> asset_object \<Rightarrow> bool" where
  "eligible extract_types obj \<longleftrightarrow> type_name obj \<in> extract_types \<and> type_name obj \<in> dom EXTRACTORS"

text \<open>The objects of the bundles that load, in the order the engine meets them.\<close>

definition loaded_objects ::
  "(string list \<Rightarrow> asset_object list option) \<Rightarrow> string list list \<Rightarrow> asset_object list" where
  "loaded_objects load bundles =
     concat (map (\<lambda>b. case load b of None \<Rightarrow> [] | Some objects \<Rightarrow> objects) bundles)"

text \<open>The sum of all counts of the statistics.\<close>

definition counted :: "stats \<Rightarrow> nat" where
  "counted st = sum_list (map (\<lambda>(k, s, f). s + f) st)"

text \<open>A file is selected by the first pass of \<open>process_directory\<close>.\<close>

definition cfs_selected :: "entry \<Rightarrow> bool" where
  "cfs_selected f \<longleftrightarrow> is_file f \<and>
     (str_lower (path_suffix (e_path f)) \<in> bundle_extensions \<or> path_suffix (e_path f) = [])"

text \<open>A file qualifies as a bundle for \<open>find_bundles\<close>.\<close>

definition qualifies :: "entry \<Rightarrow> bool" where
  "qualifies f \<longleftrightarrow> is_file f \<and>
     (str_lower (path_suffix (e_path f)) \<in> extensions \<or>
      (path_suffix (e_path f) = [] \<and> st_size f > 100))"

section \<open>Reading the output paths\<close>




section \<open>Properties of the header normalizer\<close>

lemma struct_unpack_I_four:
  "length vb = 4 \<Longrightarrow> \<exists>v. struct_unpack_I vb = Inr v"
  by (cases vb rule: struct_unpack_I.cases) auto

lemma strip_cfs_header_stripped:
  assumes "files input_path = Some contents"
    and "take 8 contents = CFS_MAGIC"
    and "12 \<le> length contents"
  shows "strip_cfs_header sha1 files input_path output_path =
     Inr (True, files(output_path \<mapsto> drop 32 contents),
       (if \<not> prefix UNITYFS_MAGIC (drop 32 contents)
        then [Warn_not_unityfs input_path] else []) @
       (if sha1 (drop 32 contents) \<noteq> take 20 (drop 12 contents)
        then [Warn_sha1_mismatch input_path] else []))"
proof -
  have "length (take 4 (drop 8 contents)) = 4"
    using assms(3) by simp
  then obtain v where "struct_unpack_I (take 4 (drop 8 contents)) = Inr v"
    using struct_unpack_I_four by blast
  then show ?thesis
    using assms(1,2) by (simp add: strip_cfs_header_def f_read_def Let_def)
qed

lemma strip_cfs_header_copied:
  assumes "files input_path = Some contents"
    and "take 8 contents \<noteq> CFS_MAGIC"
  shows "strip_cfs_header sha1 files input_path output_path =
     Inr (False, files(output_path \<mapsto> contents), [])"
  using assms by (simp add: strip_cfs_header_def f_read_def Let_def)

lemma unityfs_not_cfs:
  assumes "prefix UNITYFS_MAGIC out"
  shows "take 8 out \<noteq> CFS_MAGIC"
proof
  assume eq: "take 8 out = CFS_MAGIC"
  from assms obtain zs where out: "out = UNITYFS_MAGIC @ zs"
    by (auto simp: prefix_def)
  from eq show False
    unfolding out by (simp add: UNITYFS_MAGIC_def CFS_MAGIC_def)
qed

text \<open>
  Claim C1, as amended. For every input file of at least 32 bytes whose first 8 bytes equal
  the alternate-format magic, \<open>strip_cfs_header\<close> returns true and writes the input without
  its first 32 bytes, so the output is 32 bytes shorter than the input. Whether the output
  begins with the standard container magic is only checked: when it does not, a warning is
  printed and the payload is written all the same.
\<close>

theorem strip_cfs_header_strips_32:
  assumes "files input_path = Some contents"
    and "take 8 contents = CFS_MAGIC"
    and "32 \<le> length contents"
  shows "strip_cfs_header sha1 files input_path output_path =
       Inr (True, files(output_path \<mapsto> drop 32 contents),
         (if \<not> prefix UNITYFS_MAGIC (drop 32 contents)
          then [Warn_not_unityfs input_path] else []) @
         (if sha1 (drop 32 contents) \<noteq> take 20 (drop 12 contents)
          then [Warn_sha1_mismatch input_path] else []))
     \<and> length (drop 32 contents) + 32 = length contents"
  using assms strip_cfs_header_stripped [of files input_path contents sha1 output_path]
  by simp

theorem strip_cfs_header_strips_32_witness:
  "strip_cfs_header (\<lambda>d. ''dddddddddddddddddddd'')
       [''in.bundle'' \<mapsto> ''UnityCFS'' @ ''vvvv'' @ ''dddddddddddddddddddd'' @ ''UnityFS-payload'']
       ''in.bundle'' ''out.bundle'' =
     Inr (True,
       [''in.bundle'' \<mapsto> ''UnityCFS'' @ ''vvvv'' @ ''dddddddddddddddddddd'' @ ''UnityFS-payload'',
        ''out.bundle'' \<mapsto> ''UnityFS-payload''], [])
   \<and> length ''UnityFS-payload'' + 32 =
       length (''UnityCFS'' @ ''vvvv'' @ ''dddddddddddddddddddd'' @ ''UnityFS-payload'')"
  using strip_cfs_header_strips_32 [of
      "[''in.bundle'' \<mapsto> ''UnityCFS'' @ ''vvvv'' @ ''dddddddddddddddddddd'' @ ''UnityFS-payload'']"
      "''in.bundle''"
      "''UnityCFS'' @ ''vvvv'' @ ''dddddddddddddddddddd'' @ ''UnityFS-payload''"
      "\<lambda>d. ''dddddddddddddddddddd''" "''out.bundle''"]
  by (simp add: CFS_MAGIC_def UNITYFS_MAGIC_def)

text \<open>
  Claim C1 as stated fails: a file with the alternate magic, a full 32-byte header and the
  payload \<open>XYZ\<close> is stripped (the call returns true), and the output \<open>XYZ\<close> does not begin
  with the standard container magic.
\<close>

theorem strip_cfs_header_output_magic_counterexample:
  "strip_cfs_header (\<lambda>d. ''dddddddddddddddddddd'')
       [''in.bundle'' \<mapsto> ''UnityCFS'' @ ''vvvv'' @ ''dddddddddddddddddddd'' @ ''XYZ'']
       ''in.bundle'' ''out.bundle'' =
     Inr (True,
       [''in.bundle'' \<mapsto> ''UnityCFS'' @ ''vvvv'' @ ''dddddddddddddddddddd'' @ ''XYZ'',
        ''out.bundle'' \<mapsto> ''XYZ''], [Warn_not_unityfs ''in.bundle''])
   \<and> take 8 (''UnityCFS'' @ ''vvvv'' @ ''dddddddddddddddddddd'' @ ''XYZ'') = CFS_MAGIC
   \<and> \<not> prefix UNITYFS_MAGIC ''XYZ''"
  by (simp add: strip_cfs_header_def f_read_def CFS_MAGIC_def UNITYFS_MAGIC_def)

text \<open>
  Claim C3. For every input file whose first 8 bytes do not equal the alternate-format magic
  (a file shorter than 8 bytes included), \<open>strip_cfs_header\<close> writes an output identical to
  the input, byte for byte, and returns false.
\<close>

theorem strip_cfs_header_pass_through:
  assumes "files input_path = Some contents"
    and "take 8 contents \<noteq> CFS_MAGIC"
  shows "strip_cfs_header sha1 files input_path output_path =
     Inr (False, files(output_path \<mapsto> contents), [])"
  using assms by (rule strip_cfs_header_copied)

theorem strip_cfs_header_pass_through_witness:
  "strip_cfs_header (\<lambda>d. ''dddddddddddddddddddd'')
       [''in.bundle'' \<mapsto> ''UnityFS-payload''] ''in.bundle'' ''out.bundle'' =
     Inr (False, [''in.bundle'' \<mapsto> ''UnityFS-payload'', ''out.bundle'' \<mapsto> ''UnityFS-payload''], [])"
  using strip_cfs_header_pass_through [of "[''in.bundle'' \<mapsto> ''UnityFS-payload'']"
      "''in.bundle''" "''UnityFS-payload''" "\<lambda>d. ''dddddddddddddddddddd''" "''out.bundle''"]
  by (simp add: CFS_MAGIC_def)

text \<open>
  Claim C8, as amended. Let a first run of \<open>strip_cfs_header\<close> return and leave \<open>out\<close> at its
  output path. If that run copied its input, or \<open>out\<close> begins with the standard container
  magic, or more generally \<open>out\<close> does not begin with the alternate magic, then a second run
  on \<open>out\<close> returns false and writes \<open>out\<close> unchanged.
\<close>

theorem strip_cfs_header_second_run:
  assumes "strip_cfs_header sha1 files p q = Inr (stripped, files1, msgs)"
    and "files1 q = Some out"
    and "\<not> stripped \<or> prefix UNITYFS_MAGIC out \<or> take 8 out \<noteq> CFS_MAGIC"
  shows "strip_cfs_header sha1 files1 q r = Inr (False, files1(r \<mapsto> out), [])"
proof -
  have "take 8 out \<noteq> CFS_MAGIC"
  proof (cases stripped)
    case True
    with assms(3) show ?thesis
      using unityfs_not_cfs by blast
  next
    case False
    from assms(1) obtain contents where c: "files p = Some contents"
      by (auto simp: strip_cfs_header_def split: option.splits)
    have "take 8 contents \<noteq> CFS_MAGIC"
    proof
      assume "take 8 contents = CFS_MAGIC"
      with assms(1) c False show False
        by (auto simp: strip_cfs_header_def f_read_def Let_def split: sum.splits)
    qed
    with assms(1) c have "files1 = files(q \<mapsto> contents)"
      by (simp add: strip_cfs_header_copied)
    with assms(2) have "out = contents" by simp
    with \<open>take 8 contents \<noteq> CFS_MAGIC\<close> show ?thesis by simp
  qed
  with assms(2) show ?thesis
    by (simp add: strip_cfs_header_copied)
qed

theorem strip_cfs_header_second_run_witness:
  "strip_cfs_header (\<lambda>d. ''dddddddddddddddddddd'')
       [''in.bundle'' \<mapsto> ''UnityCFS'' @ ''vvvv'' @ ''dddddddddddddddddddd'' @ ''UnityFS-payload'']
       ''in.bundle'' ''out.bundle'' =
     Inr (True,
       [''in.bundle'' \<mapsto> ''UnityCFS'' @ ''vvvv'' @ ''dddddddddddddddddddd'' @ ''UnityFS-payload'',
        ''out.bundle'' \<mapsto> ''UnityFS-payload''], [])
   \<and> prefix UNITYFS_MAGIC ''UnityFS-payload''
   \<and> strip_cfs_header (\<lambda>d. ''dddddddddddddddddddd'')
       [''in.bundle'' \<mapsto> ''UnityCFS'' @ ''vvvv'' @ ''dddddddddddddddddddd'' @ ''UnityFS-payload'',
        ''out.bundle'' \<mapsto> ''UnityFS-payload'']
       ''out.bundle'' ''again.bundle'' =
     Inr (False,
       [''in.bundle'' \<mapsto> ''UnityCFS'' @ ''vvvv'' @ ''dddddddddddddddddddd'' @ ''UnityFS-payload'',
        ''out.bundle'' \<mapsto> ''UnityFS-payload'', ''again.bundle'' \<mapsto> ''UnityFS-payload''], [])"
proof -
  let ?sha = "\<lambda>d::bytes. ''dddddddddddddddddddd''"
  let ?f0 = "[''in.bundle'' \<mapsto> ''UnityCFS'' @ ''vvvv'' @ ''dddddddddddddddddddd'' @ ''UnityFS-payload'']"
  let ?f1 = "?f0(''out.bundle'' \<mapsto> ''UnityFS-payload'')"
  have run1: "strip_cfs_header ?sha ?f0 ''in.bundle'' ''out.bundle'' = Inr (True, ?f1, [])"
    by (simp add: strip_cfs_header_def f_read_def CFS_MAGIC_def UNITYFS_MAGIC_def)
  have out: "?f1 ''out.bundle'' = Some ''UnityFS-payload''"
    by simp
  have pre: "prefix UNITYFS_MAGIC ''UnityFS-payload''"
    by (simp add: UNITYFS_MAGIC_def)
  have "strip_cfs_header ?sha ?f1 ''out.bundle'' ''again.bundle'' =
      Inr (False, ?f1(''again.bundle'' \<mapsto> ''UnityFS-payload''), [])"
    using strip_cfs_header_second_run [OF run1 out, of "''again.bundle''"] pre by blast
  with run1 pre show ?thesis by simp
qed

text \<open>
  Claim C8 as stated fails when the payload of the first run begins with the alternate
  magic itself: the second run strips again, returns true, and its output differs from its
  input.
\<close>

theorem strip_cfs_header_second_run_counterexample:
  "strip_cfs_header (\<lambda>d. ''dddddddddddddddddddd'')
       [''in.bundle'' \<mapsto> ''UnityCFS'' @ ''vvvv'' @ ''dddddddddddddddddddd'' @
                         ''UnityCFS'' @ ''vvvv'' @ ''dddddddddddddddddddd'' @ ''UnityFS-payload'']
       ''in.bundle'' ''out.bundle'' =
     Inr (True,
       [''in.bundle'' \<mapsto> ''UnityCFS'' @ ''vvvv'' @ ''dddddddddddddddddddd'' @
                         ''UnityCFS'' @ ''vvvv'' @ ''dddddddddddddddddddd'' @ ''UnityFS-payload'',
        ''out.bundle'' \<mapsto> ''UnityCFS'' @ ''vvvv'' @ ''dddddddddddddddddddd'' @ ''UnityFS-payload''],
       [Warn_not_unityfs ''in.bundle''])
   \<and> strip_cfs_header (\<lambda>d. ''dddddddddddddddddddd'')
       [''in.bundle'' \<mapsto> ''UnityCFS'' @ ''vvvv'' @ ''dddddddddddddddddddd'' @
                         ''UnityCFS'' @ ''vvvv'' @ ''dddddddddddddddddddd'' @ ''UnityFS-payload'',
        ''out.bundle'' \<mapsto> ''UnityCFS'' @ ''vvvv'' @ ''dddddddddddddddddddd'' @ ''UnityFS-payload'']
       ''out.bundle'' ''again.bundle'' =
     Inr (True,
       [''in.bundle'' \<mapsto> ''UnityCFS'' @ ''vvvv'' @ ''dddddddddddddddddddd'' @
                         ''UnityCFS'' @ ''vvvv'' @ ''dddddddddddddddddddd'' @ ''UnityFS-payload'',
        ''out.bundle'' \<mapsto> ''UnityCFS'' @ ''vvvv'' @ ''dddddddddddddddddddd'' @ ''UnityFS-payload'',
        ''again.bundle'' \<mapsto> ''UnityFS-payload''],
       [])"
  by (simp add: strip_cfs_header_def f_read_def CFS_MAGIC_def UNITYFS_MAGIC_def)

text \<open>
  Claim C9. For every input file that begins with the alternate magic and holds at least
  the 12 bytes of magic and version, if the digest recomputed over the payload differs from
  the stored digest, \<open>strip_cfs_header\<close> prints the mismatch warning, still writes the
  payload as it is to the output path and returns true: no exception escapes.
\<close>

theorem strip_cfs_header_digest_mismatch:
  assumes "files input_path = Some contents"
    and "take 8 contents = CFS_MAGIC"
    and "12 \<le> length contents"
    and "sha1 (drop 32 contents) \<noteq> take 20 (drop 12 contents)"
  shows "strip_cfs_header sha1 files input_path output_path =
       Inr (True, files(output_path \<mapsto> drop 32 contents),
         (if \<not> prefix UNITYFS_MAGIC (drop 32 contents)
          then [Warn_not_unityfs input_path] else []) @ [Warn_sha1_mismatch input_path])"
  using assms strip_cfs_header_stripped [of files input_path contents sha1 output_path]
  by simp

theorem strip_cfs_header_digest_mismatch_witness:
  "strip_cfs_header (\<lambda>d. ''dddddddddddddddddddd'')
       [''in.bundle'' \<mapsto> ''UnityCFS'' @ ''vvvv'' @ ''eeeeeeeeeeeeeeeeeeee'' @ ''UnityFS-payload'']
       ''in.bundle'' ''out.bundle'' =
     Inr (True,
       [''in.bundle'' \<mapsto> ''UnityCFS'' @ ''vvvv'' @ ''eeeeeeeeeeeeeeeeeeee'' @ ''UnityFS-payload'',
        ''out.bundle'' \<mapsto> ''UnityFS-payload''], [Warn_sha1_mismatch ''in.bundle''])"
  using strip_cfs_header_digest_mismatch [of
      "[''in.bundle'' \<mapsto> ''UnityCFS'' @ ''vvvv'' @ ''eeeeeeeeeeeeeeeeeeee'' @ ''UnityFS-payload'']"
      "''in.bundle''"
      "''UnityCFS'' @ ''vvvv'' @ ''eeeeeeeeeeeeeeeeeeee'' @ ''UnityFS-payload''"
      "\<lambda>d. ''dddddddddddddddddddd''" "''out.bundle''"]
  by (simp add: CFS_MAGIC_def UNITYFS_MAGIC_def)

section \<open>Properties of the texture-only tool\<close>

lemma texture_step_not_skipped:
  assumes "type_name obj = ''Texture2D''" and "read_result obj = Some data"
    and "\<not> (m_Width data < min_size \<and> m_Height data < min_size)"
  shows "texture_step min_size dir obj (c, files) = texture_step 0 dir obj (c, files)"
proof -
  have a: "\<not> (min_size > 0 \<and> m_Width data < min_size \<and> m_Height data < min_size)"
    using assms(3) by blast
  have b: "\<not> ((0::int) > 0 \<and> m_Width data < 0 \<and> m_Height data < 0)"
    by simp
  show ?thesis
    unfolding texture_step_def prod.case assms(1,2) option.case if_not_P [OF a] if_not_P [OF b]
    by (rule refl)
qed

lemma img_save_cases:
  "(case img_save img files p of
      (True, files') \<Rightarrow> (c\<lparr>extracted := Suc (extracted c)\<rparr>, files')
    | (False, files') \<Rightarrow> (c\<lparr>failed := Suc (failed c)\<rparr>, files')) = r
   \<Longrightarrow> fst r = c\<lparr>extracted := Suc (extracted c)\<rparr> \<or> fst r = c\<lparr>failed := Suc (failed c)\<rparr>"
  by (cases "img_save img files p"; cases "fst (img_save img files p)") auto

lemma texture_step_counts:
  assumes "type_name obj = ''Texture2D''"
  shows "fst (texture_step 0 dir obj (c, files)) = c\<lparr>extracted := Suc (extracted c)\<rparr>
       \<or> fst (texture_step 0 dir obj (c, files)) = c\<lparr>failed := Suc (failed c)\<rparr>"
proof (cases "read_result obj")
  case None
  with assms show ?thesis by (simp add: texture_step_def)
next
  case (Some data)
  show ?thesis
  proof (cases "image data")
    case Raises
    with Some assms show ?thesis by (simp add: texture_step_def)
  next
    case (Got io)
    show ?thesis
    proof (cases io)
      case None
      with Got Some assms show ?thesis by (simp add: texture_step_def)
    next
      case (Some img)
      show ?thesis
      proof (cases "fst (img_size img) > 0 \<and> snd (img_size img) > 0")
        case False
        show ?thesis
          by (simp add: texture_step_def False Some Got \<open>read_result obj = Some data\<close> assms)
      next
        case True
        have "\<exists>p. texture_step 0 dir obj (c, files) =
            (case img_save img files p of
              (True, files') \<Rightarrow> (c\<lparr>extracted := Suc (extracted c)\<rparr>, files')
            | (False, files') \<Rightarrow> (c\<lparr>failed := Suc (failed c)\<rparr>, files'))"
          by (simp add: texture_step_def Let_def True Some Got \<open>read_result obj = Some data\<close> assms
                del: split_paired_Ex) blast
        then obtain p where "(case img_save img files p of
              (True, files') \<Rightarrow> (c\<lparr>extracted := Suc (extracted c)\<rparr>, files')
            | (False, files') \<Rightarrow> (c\<lparr>failed := Suc (failed c)\<rparr>, files'))
            = texture_step 0 dir obj (c, files)"
          by auto
        then show ?thesis
          by (rule img_save_cases)
      qed
    qed
  qed
qed


text \<open>
  Claim C10. In the texture-only tool with a positive minimum size, a Texture2D object that
  was read is skipped exactly when both its width and its height are below the minimum:
  then only the skip counter grows and nothing is written. Otherwise the object is handled
  as with no filter at all, the skip counter stays, and the object counts once, as
  extracted or as failed.
\<close>

theorem texture_step_min_size:
  assumes "type_name obj = ''Texture2D''"
    and "read_result obj = Some data"
    and "0 < min_size"
  shows "(if m_Width data < min_size \<and> m_Height data < min_size
          then texture_step min_size dir obj (c, files) = (c\<lparr>skipped := Suc (skipped c)\<rparr>, files)
          else texture_step min_size dir obj (c, files) = texture_step 0 dir obj (c, files)
             \<and> skipped (fst (texture_step min_size dir obj (c, files))) = skipped c
             \<and> extracted (fst (texture_step min_size dir obj (c, files)))
                 + failed (fst (texture_step min_size dir obj (c, files)))
               = Suc (extracted c + failed c))"
proof (cases "m_Width data < min_size \<and> m_Height data < min_size")
  case True
  then show ?thesis by (simp add: texture_step_def assms)
next
  case False
  then have eq: "texture_step min_size dir obj (c, files) = texture_step 0 dir obj (c, files)"
    using assms(1,2) by (rule texture_step_not_skipped [rotated 2])
  have "skipped (fst (texture_step 0 dir obj (c, files))) = skipped c
      \<and> extracted (fst (texture_step 0 dir obj (c, files)))
          + failed (fst (texture_step 0 dir obj (c, files))) = Suc (extracted c + failed c)"
    using texture_step_counts [OF assms(1), of dir c files] by auto
  then show ?thesis
    unfolding eq by (simp add: False)
qed

theorem texture_step_min_size_witness:
  "texture_step 64 ''out''
    \<lparr>type_name = ''Texture2D'', path_id = 7,
      read_result = Some \<lparr>m_Name = ''icon'', m_Width = 4, m_Height = 100,
        image = Got (Some \<lparr>img_size = (4, 100), save = Saved ''PNG''\<rparr>),
        export = Raises, samples = Raises, m_Script = Raises, m_FontData = Raises\<rparr>\<rparr>
    (\<lparr>extracted = 0, failed = 0, skipped = 0\<rparr>, Map.empty) =
    (\<lparr>extracted = 1, failed = 0, skipped = 0\<rparr>, [''out/icon_4x100.png'' \<mapsto> ''PNG''])
  \<and> texture_step 64 ''out''
    \<lparr>type_name = ''Texture2D'', path_id = 8,
      read_result = Some \<lparr>m_Name = ''dot'', m_Width = 4, m_Height = 4,
        image = Got (Some \<lparr>img_size = (4, 4), save = Saved ''PNG''\<rparr>),
        export = Raises, samples = Raises, m_Script = Raises, m_FontData = Raises\<rparr>\<rparr>
    (\<lparr>extracted = 0, failed = 0, skipped = 0\<rparr>, Map.empty) =
    (\<lparr>extracted = 0, failed = 0, skipped = 1\<rparr>, Map.empty)"
proof -
  let ?d1 = "\<lparr>m_Name = ''icon'', m_Width = 4, m_Height = 100,
        image = Got (Some \<lparr>img_size = (4, 100), save = Saved ''PNG''\<rparr>),
        export = Raises, samples = Raises, m_Script = Raises, m_FontData = Raises\<rparr>"
  let ?d2 = "\<lparr>m_Name = ''dot'', m_Width = 4, m_Height = 4,
        image = Got (Some \<lparr>img_size = (4, 4), save = Saved ''PNG''\<rparr>),
        export = Raises, samples = Raises, m_Script = Raises, m_FontData = Raises\<rparr>"
  let ?c0 = "\<lparr>extracted = 0, failed = 0, skipped = 0\<rparr>"
  have one: "texture_step 64 ''out'' \<lparr>type_name = ''Texture2D'', path_id = 7, read_result = Some ?d1\<rparr>
      (?c0, Map.empty) =
    texture_step 0 ''out'' \<lparr>type_name = ''Texture2D'', path_id = 7, read_result = Some ?d1\<rparr>
      (?c0, Map.empty)"
    using texture_step_min_size [of "\<lparr>type_name = ''Texture2D'', path_id = 7, read_result = Some ?d1\<rparr>"
        ?d1 64 "''out''" ?c0 Map.empty]
    by simp
  have two: "texture_step 64 ''out'' \<lparr>type_name = ''Texture2D'', path_id = 8, read_result = Some ?d2\<rparr>
      (?c0, Map.empty) = (\<lparr>extracted = 0, failed = 0, skipped = 1\<rparr>, Map.empty)"
    using texture_step_min_size [of "\<lparr>type_name = ''Texture2D'', path_id = 8, read_result = Some ?d2\<rparr>"
        ?d2 64 "''out''" ?c0 Map.empty]
    by simp
  have exp: "texture_step 0 ''out'' \<lparr>type_name = ''Texture2D'', path_id = 7, read_result = Some ?d1\<rparr>
      (?c0, Map.empty) =
      (\<lparr>extracted = 1, failed = 0, skipped = 0\<rparr>, [''out/icon_4x100.png'' \<mapsto> ''PNG''])"
    by (simp add: texture_step_def safe_filename_def isalnum_def str_int_def str_nat.simps
        digit_char_def os_path_join_def os_path_exists_def img_save_def char_of_def bit_Suc_0_iff)
  show ?thesis
    by (rule conjI [OF trans [OF one exp] two])
qed

section \<open>Properties of the extraction engine\<close>

lemma stats_get_update:
  "stats_get (AList.update k v st) k' = (if k' = k then v else stats_get st k')"
  by (simp add: stats_get_def update_conv')

lemma counted_incr_success: "counted (incr_success k st) = Suc (counted st)"
proof -
  have "counted (AList.update k (Suc (fst (stats_get (pre @ st) k)), snd (stats_get (pre @ st) k)) st)
      = Suc (counted st)" if "k \<notin> fst ` set pre" for pre
    using that
  proof (induction st arbitrary: pre)
    case Nil
    then have "map_of pre k = None" by (simp add: map_of_eq_None_iff)
    then show ?case by (simp add: counted_def stats_get_def)
  next
    case (Cons a st)
    obtain a1 s f where a: "a = (a1, s, f)" by (cases a) auto
    show ?case
    proof (cases "a1 = k")
      case True
      from Cons.prems have "map_of pre k = None" by (simp add: map_of_eq_None_iff)
      then show ?thesis using True a by (simp add: counted_def stats_get_def map_add_def)
    next
      case False
      have "k \<notin> fst ` set (pre @ [a])" using Cons.prems False a by auto
      from Cons.IH [OF this] show ?thesis using False a by (simp add: counted_def)
    qed
  qed
  from this [of "[]"] show ?thesis by (simp add: incr_success_def)
qed

lemma counted_incr_failed: "counted (incr_failed k st) = Suc (counted st)"
proof -
  have "counted (AList.update k (fst (stats_get (pre @ st) k), Suc (snd (stats_get (pre @ st) k))) st)
      = Suc (counted st)" if "k \<notin> fst ` set pre" for pre
    using that
  proof (induction st arbitrary: pre)
    case Nil
    then have "map_of pre k = None" by (simp add: map_of_eq_None_iff)
    then show ?case by (simp add: counted_def stats_get_def)
  next
    case (Cons a st)
    obtain a1 s f where a: "a = (a1, s, f)" by (cases a) auto
    show ?case
    proof (cases "a1 = k")
      case True
      from Cons.prems have "map_of pre k = None" by (simp add: map_of_eq_None_iff)
      then show ?thesis using True a by (simp add: counted_def stats_get_def map_add_def)
    next
      case False
      have "k \<notin> fst ` set (pre @ [a])" using Cons.prems False a by auto
      from Cons.IH [OF this] show ?thesis using False a by (simp add: counted_def)
    qed
  qed
  from this [of "[]"] show ?thesis by (simp add: incr_failed_def)
qed

lemma distinct_incr:
  "distinct (map fst st) \<Longrightarrow> distinct (map fst (incr_success k st))"
  "distinct (map fst st) \<Longrightarrow> distinct (map fst (incr_failed k st))"
  by (simp_all add: incr_success_def incr_failed_def distinct_update)

lemma sum_list_insort:
  "sum_list (map g (insort x xs)) = g x + sum_list (map (g :: 'a::linorder \<Rightarrow> nat) xs)"
  by (induction xs) auto

lemma sum_list_sort: "sum_list (map g (sort xs)) = sum_list (map (g :: 'a::linorder \<Rightarrow> nat) xs)"
  by (induction xs) (simp_all add: sum_list_insort)

lemma stats_get_key:
  "distinct (map fst st) \<Longrightarrow> (k, v) \<in> set st \<Longrightarrow> stats_get st k = v"
  by (simp add: stats_get_def)

lemma totals_counted:
  assumes "distinct (map fst st)"
  shows "total_success st + total_failed st = counted st"
proof -
  have m: "map (\<lambda>k. h (stats_get st k)) (map fst st) = map (\<lambda>kv. h (snd kv)) st" for h :: "nat \<times> nat \<Rightarrow> nat"
    using assms by (auto simp: stats_get_key)
  have "total_success st = sum_list (map (\<lambda>kv. fst (snd kv)) st)"
    by (simp only: total_success_def sum_list_sort m)
  moreover have "total_failed st = sum_list (map (\<lambda>kv. snd (snd kv)) st)"
    by (simp only: total_failed_def sum_list_sort m)
  moreover have "counted st = sum_list (map (\<lambda>kv. fst (snd kv)) st) + sum_list (map (\<lambda>kv. snd (snd kv)) st)"
    unfolding counted_def by (induction st) auto
  ultimately show ?thesis by simp
qed


lemma process_object_counted:
  "counted (fst (process_object T d obj (st, files))) =
     counted st + (if eligible T obj then 1 else 0)"
proof (cases "eligible T obj")
  case False
  then show ?thesis
    by (auto simp: process_object_def eligible_def split: option.splits)
next
  case True
  then obtain ex where ex: "EXTRACTORS (type_name obj) = Some ex" and t: "type_name obj \<in> T"
    by (auto simp: eligible_def)
  obtain r files' where r: "ex obj (os_path_join d (type_name obj)) files = (r, files')"
    by (cases "ex obj (os_path_join d (type_name obj)) files")
  have dom: "type_name obj \<in> dom EXTRACTORS" using ex by blast
  show ?thesis
  proof (cases r)
    case Raised
    then show ?thesis using True ex t r dom
      by (simp add: process_object_def counted_incr_failed)
  next
    case (Returned b)
    then show ?thesis using True ex t r dom
      by (cases b) (simp_all add: process_object_def counted_incr_failed counted_incr_success)
  qed
qed

lemma process_object_distinct:
  "distinct (map fst st) \<Longrightarrow> distinct (map fst (fst (process_object T d obj (st, files))))"
  by (auto simp: process_object_def distinct_incr Let_def
      split: option.splits prod.splits outcome.splits bool.splits)

lemma fold_process_object:
  "distinct (map fst (fst s)) \<Longrightarrow>
   counted (fst (fold (process_object T d) objs s)) = counted (fst s) + length (filter (eligible T) objs)
   \<and> distinct (map fst (fst (fold (process_object T d) objs s)))"
proof (induction objs arbitrary: s)
  case Nil
  then show ?case by simp
next
  case (Cons obj objs)
  obtain st files where s: "s = (st, files)" by (cases s)
  have d: "distinct (map fst (fst (process_object T d obj s)))"
    using Cons.prems s by (simp add: process_object_distinct)
  from Cons.IH [OF d] show ?case
    using s by (simp add: process_object_counted)
qed

lemma fold_process_bundle:
  "distinct (map fst (fst s)) \<Longrightarrow>
   counted (fst (fold (process_bundle T d load) bundles s)) =
     counted (fst s) + length (filter (eligible T) (loaded_objects load bundles))
   \<and> distinct (map fst (fst (fold (process_bundle T d load) bundles s)))"
proof (induction bundles arbitrary: s)
  case Nil
  then show ?case by (simp add: loaded_objects_def)
next
  case (Cons b bundles)
  show ?case
  proof (cases "load b")
    case None
    then have "process_bundle T d load b s = s" by (simp add: process_bundle_def)
    with Cons.IH [OF Cons.prems] None show ?thesis by (simp add: loaded_objects_def)
  next
    case (Some objs)
    then have pb: "process_bundle T d load b s = fold (process_object T d) objs s"
      by (simp add: process_bundle_def)
    from fold_process_object [OF Cons.prems, of T d objs]
    have 1: "counted (fst (process_bundle T d load b s)) = counted (fst s) + length (filter (eligible T) objs)"
      and 2: "distinct (map fst (fst (process_bundle T d load b s)))"
      unfolding pb by auto
    from Cons.IH [OF 2] 1 Some show ?thesis by (simp add: loaded_objects_def)
  qed
qed


lemmas text_eval = safe_filename_def isalnum_def str_int_def str_nat.simps digit_char_def
  os_path_join_def os_path_exists_def char_of_def bit_Suc_0_iff

lemmas discovery_eval = find_bundles_def path_suffix_def str_lower_def lower_char_def
  extensions_def char_of_def bit_Suc_0_iff

lemma process_object_bucket:
  assumes "eligible T obj"
  shows "(stats_get (fst (process_object T d obj (st, files))) (type_name obj) =
            (Suc (fst (stats_get st (type_name obj))), snd (stats_get st (type_name obj)))
        \<or> stats_get (fst (process_object T d obj (st, files))) (type_name obj) =
            (fst (stats_get st (type_name obj)), Suc (snd (stats_get st (type_name obj)))))
       \<and> (\<forall>k. k \<noteq> type_name obj \<longrightarrow>
            stats_get (fst (process_object T d obj (st, files))) k = stats_get st k)"
proof -
  from assms obtain ex where ex: "EXTRACTORS (type_name obj) = Some ex" and t: "type_name obj \<in> T"
    by (auto simp: eligible_def)
  obtain r files' where r: "ex obj (os_path_join d (type_name obj)) files = (r, files')"
    by (cases "ex obj (os_path_join d (type_name obj)) files")
  have dom: "type_name obj \<in> dom EXTRACTORS" using ex by blast
  have "fst (process_object T d obj (st, files)) = incr_success (type_name obj) st
      \<or> fst (process_object T d obj (st, files)) = incr_failed (type_name obj) st"
  proof (cases r)
    case Raised
    then show ?thesis using ex t r dom by (simp add: process_object_def)
  next
    case (Returned b)
    then show ?thesis using ex t r dom by (cases b) (simp_all add: process_object_def)
  qed
  then show ?thesis
    by (auto simp: incr_success_def incr_failed_def stats_get_update)
qed

text \<open>
  Claim C2, as amended. An object whose type is requested and has a registered exporter
  makes exactly one increment, of the success or of the failure count of its type, and
  changes no other count; any other object changes nothing. At the end of a run, when
  \<open>main\<close> returns, the success and failure counts of all types, plus the number of objects
  whose type was not requested or has no exporter, add up to the number of objects of the
  bundles that loaded.
\<close>

theorem extraction_statistics:
  "(eligible T obj \<longrightarrow>
      (stats_get (fst (process_object T d obj (st, files))) (type_name obj) =
          (Suc (fst (stats_get st (type_name obj))), snd (stats_get st (type_name obj)))
       \<or> stats_get (fst (process_object T d obj (st, files))) (type_name obj) =
          (fst (stats_get st (type_name obj)), Suc (snd (stats_get st (type_name obj)))))
      \<and> (\<forall>k. k \<noteq> type_name obj \<longrightarrow>
            stats_get (fst (process_object T d obj (st, files))) k = stats_get st k))
   \<and> (\<not> eligible T obj \<longrightarrow> process_object T d obj (st, files) = (st, files))
   \<and> (main_extract_assets (Parsed a) rglob load files0 = Returns (st_end, files_end) \<longrightarrow>
        total_success st_end + total_failed st_end
          + length (filter (\<lambda>obj. \<not> eligible (extract_types_of a) obj)
              (loaded_objects load (find_bundles (rglob (arg_bundle_dir a)))))
        = length (loaded_objects load (find_bundles (rglob (arg_bundle_dir a)))))"
proof (intro conjI impI)
  assume "eligible T obj"
  then show "stats_get (fst (process_object T d obj (st, files))) (type_name obj) =
          (Suc (fst (stats_get st (type_name obj))), snd (stats_get st (type_name obj)))
       \<or> stats_get (fst (process_object T d obj (st, files))) (type_name obj) =
          (fst (stats_get st (type_name obj)), Suc (snd (stats_get st (type_name obj))))"
    and "\<forall>k. k \<noteq> type_name obj \<longrightarrow>
            stats_get (fst (process_object T d obj (st, files))) k = stats_get st k"
    using process_object_bucket [of T obj d st files] by blast+
next
  assume "\<not> eligible T obj"
  then show "process_object T d obj (st, files) = (st, files)"
    by (auto simp: process_object_def eligible_def split: option.splits)
next
  let ?objs = "loaded_objects load (find_bundles (rglob (arg_bundle_dir a)))"
  assume m: "main_extract_assets (Parsed a) rglob load files0 = Returns (st_end, files_end)"
  then have st: "st_end = fst (fold (process_bundle (extract_types_of a) (arg_output_dir a) load)
      (find_bundles (rglob (arg_bundle_dir a))) ([], files0))"
    by (auto simp: main_extract_assets_def Let_def split: prod.splits if_splits)
  have d0: "distinct (map fst (fst (([], files0) :: stats \<times> fs)))" by simp
  from fold_process_bundle [OF d0, of "extract_types_of a" "arg_output_dir a" load
      "find_bundles (rglob (arg_bundle_dir a))"]
  have c: "counted st_end = length (filter (eligible (extract_types_of a)) ?objs)"
    and d: "distinct (map fst st_end)"
    unfolding st by (simp_all add: counted_def)
  have "length (filter (eligible (extract_types_of a)) ?objs)
      + length (filter (\<lambda>obj. \<not> eligible (extract_types_of a) obj) ?objs) = length ?objs"
    by (rule sum_length_filter_compl)
  with c totals_counted [OF d]
  show "total_success st_end + total_failed st_end
          + length (filter (\<lambda>obj. \<not> eligible (extract_types_of a) obj) ?objs) = length ?objs"
    by simp
qed

lemmas engine_eval = main_extract_assets_def extract_types_of_def process_bundle_def
  process_object_def EXTRACTORS_def incr_success_def incr_failed_def stats_get_def
  dom_map_of_conv_image_fst SUPPORTED_TYPES_def os_makedirs_def list_ex_iff

theorem extraction_statistics_witness:
  "main_extract_assets
     (Parsed \<lparr>arg_bundle_dir = ''in'', arg_output_dir = ''out'',
              arg_unity_version = ''2021.3.57f2'', arg_types = None\<rparr>)
     (\<lambda>d. [\<lparr>e_path = [''in'', ''a.bundle''], is_file = True, st_size = 500\<rparr>])
     (\<lambda>b. Some [
        \<lparr>type_name = ''Mesh'', path_id = 1,
          read_result = Some \<lparr>m_Name = ''cube'', m_Width = 0, m_Height = 0, image = Raises,
            export = Got [118, 32, 48, 32, 48, 32, 48], samples = Raises, m_Script = Raises, m_FontData = Raises\<rparr>\<rparr>,
        \<lparr>type_name = ''Texture2D'', path_id = 2, read_result = None\<rparr>,
        \<lparr>type_name = ''MonoBehaviour'', path_id = 3, read_result = None\<rparr>])
     Map.empty
   = Returns ([(''Mesh'', 1, 0), (''Texture2D'', 0, 1)], [''out/Mesh/cube.obj'' \<mapsto> ''v 0 0 0''])
  \<and> total_success [(''Mesh'', 1, 0), (''Texture2D'', 0, 1)]
      + total_failed [(''Mesh'', 1, 0), (''Texture2D'', 0, 1)] + 1 = 3"
proof -
  let ?a = "\<lparr>arg_bundle_dir = ''in'', arg_output_dir = ''out'',
              arg_unity_version = ''2021.3.57f2'', arg_types = None\<rparr>"
  let ?rglob = "\<lambda>d::string. [\<lparr>e_path = [''in'', ''a.bundle''], is_file = True, st_size = 500\<rparr>]"
  let ?objs = "[
        \<lparr>type_name = ''Mesh'', path_id = 1,
          read_result = Some \<lparr>m_Name = ''cube'', m_Width = 0, m_Height = 0, image = Raises,
            export = Got [118, 32, 48, 32, 48, 32, 48], samples = Raises, m_Script = Raises, m_FontData = Raises\<rparr>\<rparr>,
        \<lparr>type_name = ''Texture2D'', path_id = 2, read_result = None\<rparr>,
        \<lparr>type_name = ''MonoBehaviour'', path_id = 3, read_result = None\<rparr>]"
  let ?load = "\<lambda>b::string list. Some ?objs"
  let ?st = "[(''Mesh'', 1::nat, 0::nat), (''Texture2D'', 0, 1)]"
  let ?fs = "[''out/Mesh/cube.obj'' \<mapsto> ''v 0 0 0'']"
  have run: "main_extract_assets (Parsed ?a) ?rglob ?load Map.empty = Returns (?st, ?fs)"
    by (simp add: engine_eval discovery_eval text_eval extract_mesh_def extract_texture2d_def
        locale_encode_def utf8_char_def)
  have objs: "loaded_objects ?load (find_bundles (?rglob (arg_bundle_dir ?a))) = ?objs"
    by (simp add: loaded_objects_def discovery_eval)
  have n: "length (filter (\<lambda>obj. \<not> eligible (extract_types_of ?a) obj) ?objs) = 1"
    by (simp add: eligible_def extract_types_of_def EXTRACTORS_def dom_map_of_conv_image_fst)
  have "total_success ?st + total_failed ?st
          + length (filter (\<lambda>obj. \<not> eligible (extract_types_of ?a) obj)
              (loaded_objects ?load (find_bundles (?rglob (arg_bundle_dir ?a)))))
        = length (loaded_objects ?load (find_bundles (?rglob (arg_bundle_dir ?a))))"
    using extraction_statistics [where a = ?a and rglob = ?rglob and load = ?load
        and ?files0.0 = Map.empty and st_end = ?st and files_end = ?fs] run
    by blast
  then have "total_success ?st + total_failed ?st + 1 = 3"
    unfolding objs n by simp
  with run show ?thesis by blast
qed

text \<open>
  Claim C2 as stated fails for a requested type that has no exporter: with
  \<open>--types AnimationClip\<close> and one AnimationClip object, the type is in the requested set,
  yet nothing is counted.
\<close>

theorem extraction_statistics_counterexample:
  "main_extract_assets
     (Parsed \<lparr>arg_bundle_dir = ''in'', arg_output_dir = ''out'',
              arg_unity_version = ''2021.3.57f2'', arg_types = Some ''AnimationClip''\<rparr>)
     (\<lambda>d. [\<lparr>e_path = [''in'', ''a.bundle''], is_file = True, st_size = 500\<rparr>])
     (\<lambda>b. Some [\<lparr>type_name = ''AnimationClip'', path_id = 1, read_result = None\<rparr>])
     Map.empty
   = Returns ([], Map.empty)
  \<and> ''AnimationClip'' \<in> extract_types_of \<lparr>arg_bundle_dir = ''in'', arg_output_dir = ''out'',
              arg_unity_version = ''2021.3.57f2'', arg_types = Some ''AnimationClip''\<rparr>
  \<and> loaded_objects (\<lambda>b. Some [\<lparr>type_name = ''AnimationClip'', path_id = 1, read_result = None\<rparr>])
      (find_bundles [\<lparr>e_path = [''in'', ''a.bundle''], is_file = True, st_size = 500\<rparr>])
     = [\<lparr>type_name = ''AnimationClip'', path_id = 1, read_result = None\<rparr>]
  \<and> total_success [] + total_failed [] = 0"
  by (simp add: engine_eval discovery_eval text_eval loaded_objects_def total_success_def
      total_failed_def)

section \<open>Properties of bundle discovery\<close>

lemma find_bundles_set:
  "set (find_bundles listing) =
     (if \<exists>f \<in> set listing. qualifies f
      then e_path ` {f \<in> set listing. qualifies f}
      else e_path ` {f \<in> set listing. is_file f \<and> st_size f > 100})"
proof -
  have q: "(\<lambda>f. is_file f \<and>
            (str_lower (path_suffix (e_path f)) \<in> extensions \<or>
             (path_suffix (e_path f) = [] \<and> st_size f > 100))) = qualifies"
    by (rule ext) (simp add: qualifies_def)
  show ?thesis
    unfolding find_bundles_def q Let_def
    by (cases "\<exists>f \<in> set listing. qualifies f") (auto simp: filter_empty_conv)
qed

lemma find_bundles_sorted: "sorted (find_bundles listing)"
  by (simp add: find_bundles_def Let_def)

lemma find_bundles_scenario:
  assumes "is_file b" and "str_lower (path_suffix (e_path b)) = ''.bundle''"
    and "path_suffix (e_path m) = []" and "st_size m = 0"
  shows "find_bundles [b, m] = [e_path b]" and "find_bundles [m, b] = [e_path b]"
  using assms by (simp_all add: find_bundles_def extensions_def str_lower_def)

lemma cfs_candidates_set:
  "set (cfs_candidates listing) =
     (if \<exists>f \<in> set listing. cfs_selected f
      then e_path ` {f \<in> set listing. cfs_selected f}
      else e_path ` {f \<in> set listing. is_file f})"
proof -
  have q: "(\<lambda>f. is_file f \<and>
            (str_lower (path_suffix (e_path f)) \<in> bundle_extensions \<or>
             path_suffix (e_path f) = [])) = cfs_selected"
    by (rule ext) (simp add: cfs_selected_def)
  show ?thesis
    unfolding cfs_candidates_def q Let_def
    by (cases "\<exists>f \<in> set listing. cfs_selected f") (auto simp: filter_empty_conv)
qed

lemma cfs_candidates_sorted: "sorted (cfs_candidates listing)"
  by (simp add: cfs_candidates_def Let_def)

lemma cfs_candidates_scenario:
  assumes "is_file b" and "str_lower (path_suffix (e_path b)) = ''.bundle''"
    and "is_file m" and "path_suffix (e_path m) = []"
  shows "cfs_candidates [b, m] = sort [e_path b, e_path m]"
    and "cfs_candidates [m, b] = sort [e_path b, e_path m]"
  using assms by (auto simp: cfs_candidates_def bundle_extensions_def str_lower_def)

text \<open>
  Claim C5, as amended. \<open>find_bundles\<close>, the discovery of the two extraction tools, returns,
  sorted, exactly the files that qualify (a known bundle extension, or no extension and more
  than 100 bytes) when at least one file qualifies, and otherwise every file of more than
  100 bytes. In particular, for a directory with one \<open>.bundle\<close> file and one empty file
  without extension it returns only the \<open>.bundle\<close> file. The selection of
  \<open>process_directory\<close> in \<open>strip_cfs.py\<close> has no size threshold: \<open>cfs_candidates\<close> returns,
  sorted, exactly the files with a known bundle extension or with no extension when there is
  one, and otherwise every file; for that directory it returns both files.
\<close>

theorem find_bundles_discovery:
  "set (find_bundles listing) =
     (if \<exists>f \<in> set listing. qualifies f
      then e_path ` {f \<in> set listing. qualifies f}
      else e_path ` {f \<in> set listing. is_file f \<and> st_size f > 100})
   \<and> sorted (find_bundles listing)
   \<and> (is_file b \<and> str_lower (path_suffix (e_path b)) = ''.bundle'' \<and>
       path_suffix (e_path m) = [] \<and> st_size m = 0 \<longrightarrow>
         find_bundles [b, m] = [e_path b] \<and> find_bundles [m, b] = [e_path b])
   \<and> set (cfs_candidates listing) =
     (if \<exists>f \<in> set listing. cfs_selected f
      then e_path ` {f \<in> set listing. cfs_selected f}
      else e_path ` {f \<in> set listing. is_file f})
   \<and> sorted (cfs_candidates listing)
   \<and> (is_file b \<and> str_lower (path_suffix (e_path b)) = ''.bundle'' \<and>
       is_file m \<and> path_suffix (e_path m) = [] \<and> st_size m = 0 \<longrightarrow>
         cfs_candidates [b, m] = sort [e_path b, e_path m] \<and>
         cfs_candidates [m, b] = sort [e_path b, e_path m])"
proof (intro conjI impI)
  show "set (find_bundles listing) =
     (if \<exists>f \<in> set listing. qualifies f
      then e_path ` {f \<in> set listing. qualifies f}
      else e_path ` {f \<in> set listing. is_file f \<and> st_size f > 100})"
    by (rule find_bundles_set)
  show "sorted (find_bundles listing)" by (rule find_bundles_sorted)
  show "set (cfs_candidates listing) =
     (if \<exists>f \<in> set listing. cfs_selected f
      then e_path ` {f \<in> set listing. cfs_selected f}
      else e_path ` {f \<in> set listing. is_file f})"
    by (rule cfs_candidates_set)
  show "sorted (cfs_candidates listing)" by (rule cfs_candidates_sorted)
next
  assume "is_file b \<and> str_lower (path_suffix (e_path b)) = ''.bundle'' \<and>
       path_suffix (e_path m) = [] \<and> st_size m = 0"
  then show "find_bundles [b, m] = [e_path b]" and "find_bundles [m, b] = [e_path b]"
    using find_bundles_scenario [of b m] by blast+
next
  assume "is_file b \<and> str_lower (path_suffix (e_path b)) = ''.bundle'' \<and>
       is_file m \<and> path_suffix (e_path m) = [] \<and> st_size m = 0"
  then show "cfs_candidates [b, m] = sort [e_path b, e_path m]"
    and "cfs_candidates [m, b] = sort [e_path b, e_path m]"
    using cfs_candidates_scenario [of b m] by blast+
qed

theorem find_bundles_discovery_witness:
  "find_bundles [\<lparr>e_path = [''in'', ''level1.bundle''], is_file = True, st_size = 4096\<rparr>,
                 \<lparr>e_path = [''in'', ''marker''], is_file = True, st_size = 0\<rparr>]
     = [[''in'', ''level1.bundle'']]
   \<and> find_bundles [\<lparr>e_path = [''in'', ''marker''], is_file = True, st_size = 0\<rparr>,
                   \<lparr>e_path = [''in'', ''level1.bundle''], is_file = True, st_size = 4096\<rparr>]
     = [[''in'', ''level1.bundle'']]
   \<and> cfs_candidates [\<lparr>e_path = [''in'', ''marker''], is_file = True, st_size = 0\<rparr>,
                     \<lparr>e_path = [''in'', ''level1.bundle''], is_file = True, st_size = 4096\<rparr>]
     = [[''in'', ''level1.bundle''], [''in'', ''marker'']]"
  using find_bundles_discovery [of "[]"
      "\<lparr>e_path = [''in'', ''level1.bundle''], is_file = True, st_size = 4096\<rparr>"
      "\<lparr>e_path = [''in'', ''marker''], is_file = True, st_size = 0\<rparr>"]
  by (simp add: path_suffix_def str_lower_def lower_char_def)

text \<open>
  Claim C5 as stated fails twice. Through the fallback of \<open>find_bundles\<close>: when no file
  qualifies, a file of 200 bytes with the unknown extension \<open>.bin\<close> is returned. And in its
  own scenario for the selection of \<open>process_directory\<close>, which returns the empty file
  without extension along with the \<open>.bundle\<close> file.
\<close>

theorem find_bundles_discovery_counterexample:
  "find_bundles [\<lparr>e_path = [''in'', ''data.bin''], is_file = True, st_size = 200\<rparr>]
     = [[''in'', ''data.bin'']]
   \<and> path_suffix [''in'', ''data.bin''] = ''.bin''
   \<and> str_lower ''.bin'' \<notin> extensions
   \<and> cfs_candidates [\<lparr>e_path = [''in'', ''level1.bundle''], is_file = True, st_size = 4096\<rparr>,
                     \<lparr>e_path = [''in'', ''marker''], is_file = True, st_size = 0\<rparr>]
     = [[''in'', ''level1.bundle''], [''in'', ''marker'']]"
  by (simp add: discovery_eval cfs_candidates_def bundle_extensions_def)

section \<open>Properties of the command lines\<close>








section \<open>Properties of the exporters\<close>
























lemma read_raises:
  assumes "read_result obj = None"
  shows "extract_texture2d obj d files = (Raised, files)"
    and "extract_mesh obj d files = (Raised, files)"
    and "extract_audioclip obj d files = (Raised, files)"
    and "extract_textasset obj d files = (Raised, files)"
    and "extract_font obj d files = (Raised, files)"
    and "extract_sprite obj d files = (Raised, files)"
  using assms
  by (simp_all add: extract_texture2d_def extract_mesh_def extract_audioclip_def
      extract_textasset_def extract_font_def extract_sprite_def)

lemma image_fails:
  assumes "read_result obj = Some data"
    and "image data = Raises \<or> image data = Got None \<or>
      (\<exists>img. image data = Got (Some img) \<and> \<not> (0 < fst (img_size img) \<and> 0 < snd (img_size img)))"
  shows "extract_texture2d obj d files = (Returned False, files)"
    and "extract_sprite obj d files = (Returned False, files)"
  using assms by (auto simp: extract_texture2d_def extract_sprite_def)

lemma mesh_fails:
  assumes "read_result obj = Some data" and "export data = Raises \<or> export data = Got []"
  shows "extract_mesh obj d files = (Returned False, files)"
  using assms by (auto simp: extract_mesh_def Let_def)

lemma audio_fails:
  assumes "read_result obj = Some data" and "samples data = Raises \<or> samples data = Got []"
  shows "extract_audioclip obj d files = (Returned False, files)"
  using assms by (auto simp: extract_audioclip_def)

lemma text_fails:
  assumes "read_result obj = Some data" and "m_Script data = Raises"
  shows "extract_textasset obj d files = (Returned False, files)"
  using assms by (simp add: extract_textasset_def Let_def)

lemma font_fails:
  assumes "read_result obj = Some data"
    and "m_FontData data = Raises \<or>
      (\<exists>font_data. m_FontData data = Got font_data \<and> \<not> font_nonempty font_data)"
  shows "extract_font obj d files = (Returned False, files)"
  using assms by (auto simp: extract_font_def)

lemma registered_exporter:
  assumes "EXTRACTORS k = Some ex"
  shows "ex = extract_texture2d \<or> ex = extract_mesh \<or> ex = extract_audioclip \<or>
         ex = extract_textasset \<or> ex = extract_font \<or> ex = extract_sprite"
  using assms by (auto simp: EXTRACTORS_def split: if_splits)

lemma engine_counts_failure:
  assumes "eligible T obj" and "EXTRACTORS (type_name obj) = Some ex"
    and "fst (ex obj (os_path_join d (type_name obj)) files) \<noteq> Returned True"
  shows "process_object T d obj (st, files) =
     (incr_failed (type_name obj) st, snd (ex obj (os_path_join d (type_name obj)) files))"
proof -
  obtain r files' where r: "ex obj (os_path_join d (type_name obj)) files = (r, files')"
    by (cases "ex obj (os_path_join d (type_name obj)) files")
  from assms(1) have t: "type_name obj \<in> T" and dom: "type_name obj \<in> dom EXTRACTORS"
    by (simp_all add: eligible_def)
  from assms(3) r have ne: "r \<noteq> Returned True" by simp
  show ?thesis
  proof (cases r)
    case Raised
    then show ?thesis using assms(2) t dom r by (simp add: process_object_def)
  next
    case (Returned b)
    with ne have "b = False" by simp
    with Returned show ?thesis using assms(2) t dom r by (simp add: process_object_def)
  qed
qed

lemma engine_read_raises:
  assumes "eligible T obj" and "read_result obj = None"
  shows "process_object T d obj (st, files) = (incr_failed (type_name obj) st, files)"
proof -
  from assms(1) obtain ex where ex: "EXTRACTORS (type_name obj) = Some ex"
    by (auto simp: eligible_def)
  have "ex obj (os_path_join d (type_name obj)) files = (Raised, files)"
    using registered_exporter [OF ex] read_raises [OF assms(2)] by auto
  then show ?thesis
    using engine_counts_failure [OF assms(1) ex, of d files st] by simp
qed

text \<open>
  Claim C7, as amended. An exporter whose export fails before it opens its output file
  leaves the filesystem as it was. When \<open>obj.read()\<close> raises, the exception escapes the
  exporter, and the engine counts one failure for the type of the object and writes
  nothing. On a missing image, a decoding error, an image with a zero dimension, an empty or
  failing mesh export, no samples, no payload or no font data the exporter returns false.
  The engine counts every export that does not return true, raised or returned false, as
  one failure of the type, and leaves the filesystem as the exporter left it.
\<close>

theorem exporters_fail_before_writing:
  "(read_result obj = None \<longrightarrow>
      extract_texture2d obj d files = (Raised, files) \<and>
      extract_mesh obj d files = (Raised, files) \<and>
      extract_audioclip obj d files = (Raised, files) \<and>
      extract_textasset obj d files = (Raised, files) \<and>
      extract_font obj d files = (Raised, files) \<and>
      extract_sprite obj d files = (Raised, files))
   \<and> (eligible T obj \<and> read_result obj = None \<longrightarrow>
      process_object T d obj (st, files) = (incr_failed (type_name obj) st, files))
   \<and> (read_result obj = Some data \<and>
       (image data = Raises \<or> image data = Got None \<or>
        (\<exists>img. image data = Got (Some img) \<and> \<not> (0 < fst (img_size img) \<and> 0 < snd (img_size img)))) \<longrightarrow>
      extract_texture2d obj d files = (Returned False, files) \<and>
      extract_sprite obj d files = (Returned False, files))
   \<and> (read_result obj = Some data \<and> (export data = Raises \<or> export data = Got []) \<longrightarrow>
      extract_mesh obj d files = (Returned False, files))
   \<and> (read_result obj = Some data \<and> (samples data = Raises \<or> samples data = Got []) \<longrightarrow>
      extract_audioclip obj d files = (Returned False, files))
   \<and> (read_result obj = Some data \<and> m_Script data = Raises \<longrightarrow>
      extract_textasset obj d files = (Returned False, files))
   \<and> (read_result obj = Some data \<and>
       (m_FontData data = Raises \<or>
        (\<exists>font_data. m_FontData data = Got font_data \<and> \<not> font_nonempty font_data)) \<longrightarrow>
      extract_font obj d files = (Returned False, files))
   \<and> (eligible T obj \<and> EXTRACTORS (type_name obj) = Some ex \<and>
       fst (ex obj (os_path_join d (type_name obj)) files) \<noteq> Returned True \<longrightarrow>
      process_object T d obj (st, files) =
        (incr_failed (type_name obj) st, snd (ex obj (os_path_join d (type_name obj)) files)))"
proof (intro conjI impI)
  assume "read_result obj = None"
  then show "extract_texture2d obj d files = (Raised, files)"
    and "extract_mesh obj d files = (Raised, files)"
    and "extract_audioclip obj d files = (Raised, files)"
    and "extract_textasset obj d files = (Raised, files)"
    and "extract_font obj d files = (Raised, files)"
    and "extract_sprite obj d files = (Raised, files)"
    by (rule read_raises)+
next
  assume "eligible T obj \<and> read_result obj = None"
  then show "process_object T d obj (st, files) = (incr_failed (type_name obj) st, files)"
    by (intro engine_read_raises) (rule conjunct1, assumption, rule conjunct2, assumption)
next
  assume a: "read_result obj = Some data \<and>
       (image data = Raises \<or> image data = Got None \<or>
        (\<exists>img. image data = Got (Some img) \<and> \<not> (0 < fst (img_size img) \<and> 0 < snd (img_size img))))"
  then show "extract_texture2d obj d files = (Returned False, files)"
    by (intro image_fails(1) [of obj data]) (rule conjunct1, assumption, rule conjunct2, assumption)
  from a show "extract_sprite obj d files = (Returned False, files)"
    by (intro image_fails(2) [of obj data]) (rule conjunct1, assumption, rule conjunct2, assumption)
next
  assume "read_result obj = Some data \<and> (export data = Raises \<or> export data = Got [])"
  then show "extract_mesh obj d files = (Returned False, files)"
    by (intro mesh_fails [of obj data]) (rule conjunct1, assumption, rule conjunct2, assumption)
next
  assume "read_result obj = Some data \<and> (samples data = Raises \<or> samples data = Got [])"
  then show "extract_audioclip obj d files = (Returned False, files)"
    by (intro audio_fails [of obj data]) (rule conjunct1, assumption, rule conjunct2, assumption)
next
  assume "read_result obj = Some data \<and> m_Script data = Raises"
  then show "extract_textasset obj d files = (Returned False, files)"
    by (intro text_fails [of obj data]) (rule conjunct1, assumption, rule conjunct2, assumption)
next
  assume "read_result obj = Some data \<and>
       (m_FontData data = Raises \<or>
        (\<exists>font_data. m_FontData data = Got font_data \<and> \<not> font_nonempty font_data))"
  then show "extract_font obj d files = (Returned False, files)"
    by (intro font_fails [of obj data]) (rule conjunct1, assumption, rule conjunct2, assumption)
next
  assume a: "eligible T obj \<and> EXTRACTORS (type_name obj) = Some ex \<and>
       fst (ex obj (os_path_join d (type_name obj)) files) \<noteq> Returned True"
  then have "eligible T obj" and "EXTRACTORS (type_name obj) = Some ex"
    and "fst (ex obj (os_path_join d (type_name obj)) files) \<noteq> Returned True"
    by blast+
  then show "process_object T d obj (st, files) =
        (incr_failed (type_name obj) st, snd (ex obj (os_path_join d (type_name obj)) files))"
    by (rule engine_counts_failure)
qed

theorem exporters_fail_before_writing_witness:
  "extract_mesh
     \<lparr>type_name = ''Mesh'', path_id = 4,
       read_result = Some \<lparr>m_Name = ''cube'', m_Width = 0, m_Height = 0, image = Raises,
         export = Got [], samples = Raises, m_Script = Raises, m_FontData = Raises\<rparr>\<rparr>
     ''out'' [''out/keep.obj'' \<mapsto> ''v 0 0 0'']
   = (Returned False, [''out/keep.obj'' \<mapsto> ''v 0 0 0''])
  \<and> extract_texture2d \<lparr>type_name = ''Texture2D'', path_id = 5, read_result = None\<rparr>
     ''out'' [''out/keep.obj'' \<mapsto> ''v 0 0 0'']
   = (Raised, [''out/keep.obj'' \<mapsto> ''v 0 0 0''])
  \<and> process_object {''Texture2D''} ''out''
       \<lparr>type_name = ''Texture2D'', path_id = 5, read_result = None\<rparr>
       ([], [''out/keep.obj'' \<mapsto> ''v 0 0 0''])
   = ([(''Texture2D'', 0, 1)], [''out/keep.obj'' \<mapsto> ''v 0 0 0''])"
proof -
  let ?data = "\<lparr>m_Name = ''cube'', m_Width = 0, m_Height = 0, image = Raises,
         export = Got [], samples = Raises, m_Script = Raises, m_FontData = Raises\<rparr>"
  let ?tex = "\<lparr>type_name = ''Texture2D'', path_id = 5, read_result = None\<rparr>"
  let ?fs = "[''out/keep.obj'' \<mapsto> ''v 0 0 0'']"
  have a: "extract_mesh \<lparr>type_name = ''Mesh'', path_id = 4, read_result = Some ?data\<rparr>
     ''out'' ?fs = (Returned False, ?fs)"
    using exporters_fail_before_writing [where obj = "\<lparr>type_name = ''Mesh'', path_id = 4, read_result = Some ?data\<rparr>"
        and data = ?data and d = "''out''" and files = ?fs]
    by simp
  have b: "extract_texture2d ?tex ''out'' ?fs = (Raised, ?fs)"
    using exporters_fail_before_writing [where obj = ?tex and d = "''out''" and files = ?fs]
    by simp
  have e: "eligible {''Texture2D''} ?tex"
    by (simp add: eligible_def EXTRACTORS_def)
  have c: "process_object {''Texture2D''} ''out'' ?tex ([], ?fs) = ([(''Texture2D'', 0, 1)], ?fs)"
    using exporters_fail_before_writing [where obj = ?tex and T = "{''Texture2D''}"
        and d = "''out''" and st = "[]" and files = ?fs] e
    by (simp add: incr_failed_def stats_get_def)
  show ?thesis
    by (intro conjI) (rule a, rule b, rule c)
qed

text \<open>
  Claim C7 as stated fails in two ways. When \<open>obj.read()\<close> raises, the exporter does not
  return false: the exception escapes. And an export that fails in \<open>f.write\<close>, after \<open>open\<close>
  has created the file, returns false and leaves a file of zero bytes: a text asset or a mesh
  whose text holds a lone surrogate (what the parser makes of a byte that is not UTF-8), and a
  font whose data holds an integer outside \<open>range(256)\<close>.
\<close>

theorem exporters_fail_before_writing_counterexample:
  "extract_texture2d \<lparr>type_name = ''Texture2D'', path_id = 5, read_result = None\<rparr>
     ''out'' Map.empty
   = (Raised, Map.empty)
  \<and> utf8_encode [104, 105, 56448] = None
  \<and> extract_textasset
     \<lparr>type_name = ''TextAsset'', path_id = 6,
       read_result = Some \<lparr>m_Name = ''notes'', m_Width = 0, m_Height = 0, image = Raises,
         export = Raises, samples = Raises, m_Script = Got (Script_str [104, 105, 56448]),
         m_FontData = Raises\<rparr>\<rparr>
     ''out'' Map.empty
   = (Returned False, [''out/notes.txt'' \<mapsto> []])
  \<and> extract_mesh
     \<lparr>type_name = ''Mesh'', path_id = 7,
       read_result = Some \<lparr>m_Name = ''cube'', m_Width = 0, m_Height = 0, image = Raises,
         export = Got [103, 32, 56448], samples = Raises, m_Script = Raises,
         m_FontData = Raises\<rparr>\<rparr>
     ''out'' Map.empty
   = (Returned False, [''out/cube.obj'' \<mapsto> []])
  \<and> bytes_of_ints [0, 1, 0, 0, 256] = None
  \<and> extract_font
     \<lparr>type_name = ''Font'', path_id = 8,
       read_result = Some \<lparr>m_Name = ''arial'', m_Width = 0, m_Height = 0, image = Raises,
         export = Raises, samples = Raises, m_Script = Raises,
         m_FontData = Got (Font_ints [0, 1, 0, 0, 256])\<rparr>\<rparr>
     ''out'' Map.empty
   = (Returned False, [''out/arial.ttf'' \<mapsto> []])"
  by (simp add: extract_texture2d_def extract_textasset_def extract_mesh_def extract_font_def
      locale_encode_def utf8_char_def font_nonempty_def font_ext_def font_to_bytes_def
      bytes_of_ints_def text_eval)

end
